theory Spec2Isabelle
  imports Main
begin

section \<open>Web3Provider/wagmiConfig.ts: RPC transports and wallet connectors\<close>

subsection \<open>Chain information\<close>

text \<open>
  \<^verbatim>\<open>chain.rpcUrls\<close> has up to four entries, each an object with an \<^verbatim>\<open>http\<close> list of
  URL strings. The source reads every entry with \<^verbatim>\<open>?.http ?? []\<close>, so each entry is
  optional in the model. The fields carry the suffix \<open>_rpc\<close> because \<open>default\<close> is a
  constant of HOL.
\<close>

record RpcUrlsEntry =
  http :: "string list"

record RpcUrls =
  interface_rpc :: "RpcUrlsEntry option"
  default_rpc :: "RpcUrlsEntry option"
  public_rpc :: "RpcUrlsEntry option"
  fallback_rpc :: "RpcUrlsEntry option"

record ChainInfo =
  rpcUrls :: RpcUrls

text \<open>\<^verbatim>\<open>entry?.http ?? []\<close>: the list of the entry, the empty list when the entry is missing.\<close>

definition http_or_empty :: "RpcUrlsEntry option \<Rightarrow> string list" where
  "http_or_empty e = (case e of None \<Rightarrow> [] | Some r \<Rightarrow> http r)"

text \<open>\<^verbatim>\<open>Boolean(s)\<close> on a string: only the empty string is falsy.\<close>

definition Boolean_string :: "string \<Rightarrow> bool" where
  "Boolean_string s = (s \<noteq> [])"

subsection \<open>JavaScript \<^verbatim>\<open>Set\<close>, as far as the source uses it\<close>

text \<open>
  A \<^verbatim>\<open>Set\<close> iterates in insertion order, so it is modelled by the list of its members
  in that order. \<^verbatim>\<open>add\<close> leaves the set as it is when the value is already a member,
  \<^verbatim>\<open>new Set(iterable)\<close> adds the values of the iterable one after the other, and
  \<^verbatim>\<open>Array.from(set)\<close> lists the members in insertion order.
\<close>

definition Set_add :: "'a list \<Rightarrow> 'a \<Rightarrow> 'a list" where
  "Set_add s x = (if x \<in> set s then s else s @ [x])"

definition new_Set :: "'a list \<Rightarrow> 'a list" where
  "new_Set xs = foldl Set_add [] xs"

definition Array_from :: "'a list \<Rightarrow> 'a list" where
  "Array_from s = s"

subsection \<open>\<^verbatim>\<open>orderedTransportUrls\<close>\<close>

definition orderedTransportUrls :: "ChainInfo \<Rightarrow> string list" where
  "orderedTransportUrls chain =
     (let orderedRpcUrls =
            http_or_empty (interface_rpc (rpcUrls chain))
          @ http_or_empty (default_rpc (rpcUrls chain))
          @ http_or_empty (public_rpc (rpcUrls chain))
          @ http_or_empty (fallback_rpc (rpcUrls chain))
      in Array_from (new_Set (filter Boolean_string orderedRpcUrls)))"

text \<open>
  The reading of "each URL kept only at its first occurrence": the entry at position
  \<open>i\<close> stays exactly when it does not occur at an earlier position.
\<close>

definition first_occurrences :: "'a list \<Rightarrow> 'a list" where
  "first_occurrences xs =
     map (\<lambda>i. xs ! i) (filter (\<lambda>i. xs ! i \<notin> set (take i xs)) [0..<length xs])"

subsection \<open>\<^verbatim>\<open>createWagmiConnectors\<close>\<close>

text \<open>
  A connector is the value one of the imported connector factories returns; the model
  keeps which factory built it and the arguments the source passes. The constants
  \<^verbatim>\<open>WC_PARAMS\<close>, \<^verbatim>\<open>UNISWAP_WEB_URL\<close>, \<^verbatim>\<open>UNISWAP_LOGO\<close> and
  \<^verbatim>\<open>PLAYWRIGHT_CONNECT_ADDRESS\<close> are imported from other modules and are fields of the
  environment, next to what \<^verbatim>\<open>isTestEnv()\<close> and \<^verbatim>\<open>isPlaywrightEnv()\<close> return.
\<close>

record CoinbaseWalletParams =
  appName :: string
  appLogoUrl :: string
  reloadOnDisconnect :: bool

datatype Connector =
    porto
  | BinanceConnector bool
  | walletConnect string
  | embeddedWallet
  | coinbaseWallet CoinbaseWalletParams
  | safe
  | mock "string list"

record Environment =
  isTestEnv :: bool
  isPlaywrightEnv :: bool
  WC_PARAMS :: string
  UNISWAP_WEB_URL :: string
  UNISWAP_LOGO :: string
  PLAYWRIGHT_CONNECT_ADDRESS :: string

definition baseConnectors :: "Environment \<Rightarrow> Connector list" where
  "baseConnectors env =
     [porto, BinanceConnector True]
     @ (if isTestEnv env \<and> \<not> isPlaywrightEnv env then [] else [walletConnect (WC_PARAMS env)])
     @ [embeddedWallet,
        coinbaseWallet \<lparr> appName = ''Uniswap'',
                         appLogoUrl = UNISWAP_WEB_URL env @ UNISWAP_LOGO env,
                         reloadOnDisconnect = False \<rparr>,
        safe]"

definition createWagmiConnectors :: "Environment \<Rightarrow> bool \<Rightarrow> Connector list" where
  "createWagmiConnectors env includeMockConnector =
     (if includeMockConnector
      then baseConnectors env @ [mock [PLAYWRIGHT_CONNECT_ADDRESS env]]
      else baseConnectors env)"

definition defaultConnectors :: "Environment \<Rightarrow> Connector list" where
  "defaultConnectors env = createWagmiConnectors env (isPlaywrightEnv env)"

text \<open>Which factory built a connector, without its arguments.\<close>

datatype ConnectorKind =
  Porto | Binance | WalletConnect | EmbeddedWallet | Coinbase | Safe | Mock

fun kind_of :: "Connector \<Rightarrow> ConnectorKind" where
  "kind_of porto = Porto"
| "kind_of (BinanceConnector _) = Binance"
| "kind_of (walletConnect _) = WalletConnect"
| "kind_of embeddedWallet = EmbeddedWallet"
| "kind_of (coinbaseWallet _) = Coinbase"
| "kind_of safe = Safe"
| "kind_of (mock _) = Mock"

section \<open>\<^verbatim>\<open>clientToProvider\<close>: a viem client as an ethers provider\<close>

text \<open>
  Chain ids are JavaScript numbers, modelled by \<open>int\<close>; a number is falsy exactly when
  it is \<open>0\<close> (the model has no \<^verbatim>\<open>NaN\<close>). Reading a property of \<^verbatim>\<open>undefined\<close> throws a
  \<^verbatim>\<open>TypeError\<close>; \<open>ArgumentError\<close> is the error the ethers library throws for an
  argument it refuses, with its message.
\<close>

datatype js_error = TypeError | ArgumentError string

definition Boolean_number :: "int option \<Rightarrow> bool" where
  "Boolean_number n = (case n of None \<Rightarrow> False | Some k \<Rightarrow> k \<noteq> 0)"

definition Boolean_optional_string :: "string option \<Rightarrow> bool" where
  "Boolean_optional_string a = (case a of None \<Rightarrow> False | Some s \<Rightarrow> Boolean_string s)"

record ChainContract =
  contract_address :: string

record ChainContracts =
  ensRegistry :: "ChainContract option"

record Chain =
  chain_id :: int
  chain_name :: string
  contracts :: "ChainContracts option"

text \<open>
  A client is an object: \<open>client_ref\<close> is its identity, which is what the \<^verbatim>\<open>WeakMap\<close>
  compares. Its type gives it a chain; the source still tests \<^verbatim>\<open>chain ? ... : ...\<close>, so
  the field is optional in the model. The transport is opaque.
\<close>

record Client =
  client_ref :: nat
  chain :: "Chain option"
  transport :: string

record Network =
  network_chainId :: int
  network_name :: string
  ensAddress :: "string option"

text \<open>
  \<^verbatim>\<open>new Web3Provider(transport, network)\<close> makes a new object: \<open>provider_ref\<close> is its
  identity, taken from the allocation counter of the state.
\<close>

record Web3Provider =
  provider_ref :: nat
  provider_transport :: string
  provider_network :: Network

text \<open>
  The constructor belongs to the ethers library and can throw: it validates the network
  it is given. What it does is an argument of the model: for a transport and a network
  it gives the error it throws, or the network the new provider holds.
\<close>

type_synonym Web3Provider_constructor = "string \<Rightarrow> Network \<Rightarrow> js_error + Network"

text \<open>
  The constructor of ethers v5 resolves a network object with \<^verbatim>\<open>getNetwork\<close>, against
  the library's table of standard networks (name to chain id and ENS address). A name
  that is not in the table keeps its network; a standard name with a chain id that is
  neither \<open>0\<close> nor the standard one is refused; otherwise the provider holds the
  standard chain id, and the ENS address of the argument or else of the table. The
  table is an argument; in the library \<^verbatim>\<open>homestead\<close> has chain id \<open>1\<close>.
\<close>

record StandardNetwork =
  standard_chainId :: int
  standard_ensAddress :: "string option"

definition getNetwork :: "(string \<rightharpoonup> StandardNetwork) \<Rightarrow> Network \<Rightarrow> js_error + Network" where
  "getNetwork networks network =
     (case networks (network_name network) of
        None \<Rightarrow> Inr network
      | Some standard \<Rightarrow>
          if network_chainId network \<noteq> 0 \<and> network_chainId network \<noteq> standard_chainId standard
          then Inl (ArgumentError ''network chainId mismatch'')
          else Inr \<lparr> network_chainId = standard_chainId standard,
                     network_name = network_name network,
                     ensAddress =
                       (if Boolean_optional_string (ensAddress network) then ensAddress network
                        else if Boolean_optional_string (standard_ensAddress standard)
                        then standard_ensAddress standard
                        else None) \<rparr>)"

definition ethers_Web3Provider :: "(string \<rightharpoonup> StandardNetwork) \<Rightarrow> Web3Provider_constructor" where
  "ethers_Web3Provider networks transport_arg network = getNetwork networks network"

record ProviderState =
  providers :: "nat \<rightharpoonup> Web3Provider"
  next_ref :: nat

text \<open>\<^verbatim>\<open>chain.contracts?.ensRegistry?.address\<close> for a chain that is there.\<close>

definition ensAddress_of :: "Chain \<Rightarrow> string option" where
  "ensAddress_of ch =
     (case contracts ch of
        None \<Rightarrow> None
      | Some cs \<Rightarrow> (case ensRegistry cs of None \<Rightarrow> None | Some r \<Rightarrow> Some (contract_address r)))"

text \<open>The nested conditional that builds \<^verbatim>\<open>network\<close>.\<close>

definition network_of :: "Chain option \<Rightarrow> int option \<Rightarrow> string option \<Rightarrow> Network option" where
  "network_of chain_opt chainId ensAddr =
     (case chain_opt of
        Some ch \<Rightarrow>
          Some \<lparr> network_chainId = chain_id ch, network_name = chain_name ch, ensAddress = ensAddr \<rparr>
      | None \<Rightarrow>
          (if Boolean_number chainId
           then (case chainId of
                   Some k \<Rightarrow> Some \<lparr> network_chainId = k, network_name = ''Unsupported'',
                                     ensAddress = None \<rparr>
                 | None \<Rightarrow> None)
           else None))"

text \<open>
  \<open>clientToProvider\<close>, with the constructor as its first argument. When the constructor
  throws, the call throws and nothing is cached.
\<close>

definition clientToProvider ::
  "Web3Provider_constructor \<Rightarrow> Client option \<Rightarrow> int option \<Rightarrow> ProviderState
     \<Rightarrow> js_error + (Web3Provider option \<times> ProviderState)"
where
  "clientToProvider new_Web3Provider client chainId s =
     (case client of
        None \<Rightarrow> Inr (None, s)
      | Some c \<Rightarrow>
          (case chain c of
             None \<Rightarrow> Inl TypeError
           | Some ch \<Rightarrow>
               (let ensAddr = ensAddress_of ch in
                case network_of (chain c) chainId ensAddr of
                  None \<Rightarrow> Inr (None, s)
                | Some network \<Rightarrow>
                    (case providers s (client_ref c) of
                       Some cached \<Rightarrow> Inr (Some cached, s)
                     | None \<Rightarrow>
                         (case new_Web3Provider (transport c) network of
                            Inl e \<Rightarrow> Inl e
                          | Inr held \<Rightarrow>
                              (let provider = \<lparr> provider_ref = next_ref s,
                                                 provider_transport = transport c,
                                                 provider_network = held \<rparr>
                               in Inr (Some provider,
                                       s \<lparr> providers := (providers s)(client_ref c \<mapsto> provider),
                                           next_ref := Suc (next_ref s) \<rparr>)))))))"

text \<open>
  The state after a sequence of calls, each with its own client and chain id; a call
  that throws leaves the state as it was.
\<close>

fun after_calls ::
  "Web3Provider_constructor \<Rightarrow> (Client option \<times> int option) list \<Rightarrow> ProviderState \<Rightarrow> ProviderState"
where
  "after_calls new_Web3Provider [] s = s"
| "after_calls new_Web3Provider ((client, chainId) # calls) s =
     (case clientToProvider new_Web3Provider client chainId s of
        Inl _ \<Rightarrow> after_calls new_Web3Provider calls s
      | Inr (_, s') \<Rightarrow> after_calls new_Web3Provider calls s')"

section \<open>hooks/useSwapCallback.tsx: executing a swap\<close>

subsection \<open>Trades\<close>

text \<open>
  Amounts are big integers, modelled by \<open>int\<close>; \<^verbatim>\<open>quotient.toString()\<close> and
  \<^verbatim>\<open>BigNumber.from(amount)\<close> only change the representation of the integer and are
  left out. A \<^verbatim>\<open>Percent\<close> is a fraction (numerator, denominator); a currency is opaque
  and stands for itself as a string.
\<close>

datatype TradeType = EXACT_INPUT | EXACT_OUTPUT

type_synonym Percent = "int \<times> int"

record CurrencyAmount =
  currency :: string
  quotient :: int

record SwapFee =
  percent :: Percent
  recipient :: string
  amount :: int

text \<open>
  The enum \<^verbatim>\<open>OffchainOrderType\<close> is imported from \<^verbatim>\<open>state/routing/types\<close>; the source
  names its member \<^verbatim>\<open>DUTCH_AUCTION\<close>, and any other member is kept by its name.
\<close>

datatype OffchainOrderType = DUTCH_AUCTION | OtherOrderType string

text \<open>
  The fields of a trade that the source reads. \<^verbatim>\<open>swapFee\<close> may be undefined on a
  classic trade; \<^verbatim>\<open>offchainOrderType\<close> is a property of UniswapX trades, undefined on
  the others.
\<close>

record InterfaceTrade =
  tradeType :: TradeType
  inputAmount :: CurrencyAmount
  outputAmount :: CurrencyAmount
  minimumAmountOut :: "Percent \<Rightarrow> CurrencyAmount"
  maximumAmountIn :: "Percent \<Rightarrow> CurrencyAmount"
  swapFee :: "SwapFee option"
  offchainOrderType :: "OffchainOrderType option"

subsection \<open>Results of a swap\<close>

text \<open>
  \<^verbatim>\<open>SwapResult\<close> is a union discriminated by \<^verbatim>\<open>type\<close>, a \<^verbatim>\<open>TradeFillType\<close>. The enum
  is imported from \<^verbatim>\<open>state/routing/types\<close>; the source names the members \<^verbatim>\<open>Classic\<close>,
  \<^verbatim>\<open>UniswapX\<close> and \<^verbatim>\<open>UniswapXv2\<close>. A classic result carries the transaction response
  (the source reads its \<^verbatim>\<open>hash\<close>) and an optional deadline; a UniswapX result carries
  the response of the order service, with \<^verbatim>\<open>orderHash\<close>, \<^verbatim>\<open>deadline\<close> and
  \<^verbatim>\<open>encodedOrder\<close>. The deadline of a classic result is a \<^verbatim>\<open>BigNumber\<close>, an integer
  of any size.
\<close>

datatype TradeFillType = Classic | UniswapX | UniswapXv2

record TransactionResponse =
  hash :: string

record UniswapXOrderResponse =
  orderHash :: string
  deadline :: int
  encodedOrder :: string

datatype SwapResult =
    ClassicSwapResult TransactionResponse "int option"
  | UniswapXSwapResult UniswapXOrderResponse
  | UniswapXv2SwapResult UniswapXOrderResponse

text \<open>\<^verbatim>\<open>result.type\<close>\<close>

fun result_type :: "SwapResult \<Rightarrow> TradeFillType" where
  "result_type (ClassicSwapResult _ _) = Classic"
| "result_type (UniswapXSwapResult _) = UniswapX"
| "result_type (UniswapXv2SwapResult _) = UniswapXv2"

subsection \<open>What the callback records\<close>

datatype TransactionType = Swap

datatype SwapAmounts =
    ExactInputAmounts int int int
  | ExactOutputAmounts int int int

text \<open>
  \<^verbatim>\<open>swapInfo\<close>. \<open>ExactInputAmounts\<close> holds \<^verbatim>\<open>inputCurrencyAmountRaw\<close>,
  \<^verbatim>\<open>expectedOutputCurrencyAmountRaw\<close> and \<^verbatim>\<open>minimumOutputCurrencyAmountRaw\<close>, with
  \<^verbatim>\<open>tradeType: EXACT_INPUT\<close>; \<open>ExactOutputAmounts\<close> holds
  \<^verbatim>\<open>maximumInputCurrencyAmountRaw\<close>, \<^verbatim>\<open>outputCurrencyAmountRaw\<close> and
  \<^verbatim>\<open>expectedInputCurrencyAmountRaw\<close>, with \<^verbatim>\<open>tradeType: EXACT_OUTPUT\<close>.
\<close>

record TransactionInfo =
  info_type :: TransactionType
  inputCurrencyId :: string
  outputCurrencyId :: string
  isUniswapXOrder :: bool
  amounts :: SwapAmounts

text \<open>The argument of \<^verbatim>\<open>addOrder\<close>.\<close>

record UniswapXOrderDetails =
  offerer :: "string option"
  order_orderHash :: string
  order_chainId :: "int option"
  expiry :: int
  swapInfo :: TransactionInfo
  order_encodedOrder :: string
  order_offchainOrderType :: "OffchainOrderType option"

subsection \<open>The two strategies\<close>

text \<open>
  \<^verbatim>\<open>getUniversalRouterFeeFields\<close> returns an object with one key: \<open>feeOptions\<close> holds
  \<^verbatim>\<open>fee\<close> and \<^verbatim>\<open>recipient\<close>, \<open>flatFeeOptions\<close> holds \<^verbatim>\<open>amount\<close> and \<^verbatim>\<open>recipient\<close>.
\<close>

datatype UniversalRouterFeeField =
    feeOptions Percent string
  | flatFeeOptions int string

text \<open>
  The fiat values are numbers that the hook only hands on to the strategy hooks; no
  arithmetic is done on them, and integers stand for them.
\<close>

record FiatValues =
  amountIn :: "int option"
  amountOut :: "int option"
  feeUsd :: "int option"

text \<open>The arguments of \<^verbatim>\<open>useUniswapXSwapCallback\<close> and \<^verbatim>\<open>useUniversalRouterSwapCallback\<close>.\<close>

record UniswapXSwapArgs =
  uniswapx_trade :: "InterfaceTrade option"
  uniswapx_allowedSlippage :: Percent
  uniswapx_fiatValues :: FiatValues

record UniversalRouterOptions =
  slippageTolerance :: Percent
  permit :: "string option"
  feeField :: "UniversalRouterFeeField option"

record UniversalRouterSwapArgs =
  router_trade :: "InterfaceTrade option"
  router_fiatValues :: FiatValues
  options :: UniversalRouterOptions

text \<open>A strategy callback, as the hook built it from its arguments.\<close>

datatype StrategyCallback =
    uniswapXSwapCallback UniswapXSwapArgs
  | universalRouterSwapCallback UniversalRouterSwapArgs

subsection \<open>Errors, the account, the surroundings\<close>

text \<open>
  The errors the callback throws, in the order of the source: missing trade, wallet
  not connected, missing swap chain id, non-EVM chain, wallet not on the right chain.
  \<open>NumericFault\<close> is the overflow error of \<^verbatim>\<open>BigNumber.toNumber()\<close>. \<open>Rejected\<close> is
  the rejection of an awaited promise of the surroundings (\<^verbatim>\<open>selectChain\<close> or the
  strategy), which the callback passes on.
\<close>

datatype SwapError =
    MissingTrade
  | WalletNotConnected
  | MissingSwapChainId
  | NonEVMChain
  | WrongChain
  | NumericFault
  | Rejected string

text \<open>
  \<^verbatim>\<open>BigNumber.toNumber()\<close> gives the integer as a JavaScript number when its magnitude is
  below \<open>2 ^ 53\<close> and throws otherwise; \<^verbatim>\<open>deadline?.toNumber()\<close> is undefined for an
  undefined deadline.
\<close>

definition toNumber :: "int \<Rightarrow> SwapError + int" where
  "toNumber n = (if \<bar>n\<bar> < 2 ^ 53 then Inr n else Inl NumericFault)"

definition optional_toNumber :: "int option \<Rightarrow> SwapError + int option" where
  "optional_toNumber dl =
     (case dl of
        None \<Rightarrow> Inr None
      | Some n \<Rightarrow> (case toNumber n of Inl e \<Rightarrow> Inl e | Inr k \<Rightarrow> Inr (Some k)))"

record Account =
  isConnected :: bool
  address :: "string option"
  account_chainId :: "int option"

text \<open>
  What the callback gets from its imports and from the other hooks. The type guards
  \<^verbatim>\<open>isClassicTrade\<close> and \<^verbatim>\<open>isUniswapXTrade\<close>, \<^verbatim>\<open>isEVMChain\<close> and \<^verbatim>\<open>currencyId\<close>
  are imported functions, and any functions may stand for them. The two strategy hooks
  give, for their arguments, what awaiting the callback they return yields: a result or
  a rejection. \<^verbatim>\<open>useSelectChain\<close> gives what awaiting \<^verbatim>\<open>selectChain(chainId)\<close> yields.
\<close>

record Surroundings =
  isClassicTrade :: "InterfaceTrade \<Rightarrow> bool"
  isUniswapXTrade :: "InterfaceTrade \<Rightarrow> bool"
  isEVMChain :: "int \<Rightarrow> bool"
  currencyId :: "string \<Rightarrow> string"
  useAccount :: Account
  useSupportedChainId :: "int option \<Rightarrow> int option"
  useMultichainContext :: "int option"
  useUniswapXSwapCallback :: "UniswapXSwapArgs \<Rightarrow> SwapError + SwapResult"
  useUniversalRouterSwapCallback :: "UniversalRouterSwapArgs \<Rightarrow> SwapError + SwapResult"
  useSelectChain :: "int \<Rightarrow> SwapError + bool"

text \<open>
  Modelled from the spec: the type guards \<^verbatim>\<open>isClassicTrade\<close> and \<^verbatim>\<open>isUniswapXTrade\<close> of
  \<^verbatim>\<open>state/routing/utils\<close> are not among the sources. A trade is either classic or
  UniswapX, and the guards narrow an optional trade to a classic or to a UniswapX
  trade: on a trade they answer as the surroundings say, on \<^verbatim>\<open>undefined\<close> they are false.
\<close>

definition guard :: "(InterfaceTrade \<Rightarrow> bool) \<Rightarrow> InterfaceTrade option \<Rightarrow> bool" where
  "guard g trade = (case trade of None \<Rightarrow> False | Some t \<Rightarrow> g t)"

text \<open>The parameters of \<^verbatim>\<open>useSwapCallback\<close>.\<close>

record SwapParams =
  trade :: "InterfaceTrade option"
  fiatValues :: FiatValues
  allowedSlippage :: Percent
  permitSignature :: "string option"

text \<open>
  The effects of the callback: the orders given to \<^verbatim>\<open>addOrder\<close>, the transactions
  given to \<^verbatim>\<open>addTransaction\<close> (response, info, deadline), the strategy callbacks
  invoked and the chains \<^verbatim>\<open>selectChain\<close> was asked for, each in the order of the calls.
\<close>

record World =
  orders :: "UniswapXOrderDetails list"
  transactions :: "(TransactionResponse \<times> TransactionInfo \<times> int option) list"
  invoked :: "StrategyCallback list"
  selected_chains :: "int list"

subsection \<open>\<^verbatim>\<open>getUniversalRouterFeeFields\<close>\<close>

definition getUniversalRouterFeeFields ::
  "Surroundings \<Rightarrow> InterfaceTrade option \<Rightarrow> UniversalRouterFeeField option"
where
  "getUniversalRouterFeeFields env trade_opt =
     (if \<not> guard (isClassicTrade env) trade_opt then None
      else case trade_opt of
        None \<Rightarrow> None
      | Some t \<Rightarrow>
          (case swapFee t of
             None \<Rightarrow> None
           | Some fee \<Rightarrow>
               if tradeType t = EXACT_INPUT
               then Some (feeOptions (percent fee) (recipient fee))
               else Some (flatFeeOptions (amount fee) (recipient fee))))"

subsection \<open>\<^verbatim>\<open>useSwapCallback\<close>\<close>

text \<open>The arguments the two strategy hooks are called with, and the callback chosen.\<close>

definition uniswapXSwapArgs :: "Surroundings \<Rightarrow> SwapParams \<Rightarrow> UniswapXSwapArgs" where
  "uniswapXSwapArgs env p =
     \<lparr> uniswapx_trade = (if guard (isUniswapXTrade env) (trade p) then trade p else None),
       uniswapx_allowedSlippage = allowedSlippage p,
       uniswapx_fiatValues = fiatValues p \<rparr>"

definition universalRouterSwapArgs :: "Surroundings \<Rightarrow> SwapParams \<Rightarrow> UniversalRouterSwapArgs" where
  "universalRouterSwapArgs env p =
     \<lparr> router_trade = (if guard (isClassicTrade env) (trade p) then trade p else None),
       router_fiatValues = fiatValues p,
       options = \<lparr> slippageTolerance = allowedSlippage p,
                   permit = permitSignature p,
                   feeField = getUniversalRouterFeeFields env (trade p) \<rparr> \<rparr>"

definition swapCallback :: "Surroundings \<Rightarrow> SwapParams \<Rightarrow> StrategyCallback" where
  "swapCallback env p =
     (if guard (isUniswapXTrade env) (trade p)
      then uniswapXSwapCallback (uniswapXSwapArgs env p)
      else universalRouterSwapCallback (universalRouterSwapArgs env p))"

text \<open>Awaiting a strategy callback.\<close>

definition await_callback :: "Surroundings \<Rightarrow> StrategyCallback \<Rightarrow> SwapError + SwapResult" where
  "await_callback env cb =
     (case cb of
        uniswapXSwapCallback args \<Rightarrow> useUniswapXSwapCallback env args
      | universalRouterSwapCallback args \<Rightarrow> useUniversalRouterSwapCallback env args)"

text \<open>\<^verbatim>\<open>addOrder\<close> and \<^verbatim>\<open>addTransaction\<close>, as effects on the world.\<close>

definition addOrder :: "UniswapXOrderDetails \<Rightarrow> World \<Rightarrow> World" where
  "addOrder order w = w \<lparr> orders := orders w @ [order] \<rparr>"

definition addTransaction ::
  "TransactionResponse \<Rightarrow> TransactionInfo \<Rightarrow> int option \<Rightarrow> World \<Rightarrow> World"
where
  "addTransaction response info dl w = w \<lparr> transactions := transactions w @ [(response, info, dl)] \<rparr>"

text \<open>
  \<^verbatim>\<open>await selectChain(swapChainId)\<close> and the test of what it returns: the error thrown,
  if any, and the world after the call.
\<close>

definition switchChain :: "Surroundings \<Rightarrow> int \<Rightarrow> World \<Rightarrow> SwapError option \<times> World" where
  "switchChain env swapChainId w =
     (let w' = w \<lparr> selected_chains := selected_chains w @ [swapChainId] \<rparr> in
      case useSelectChain env swapChainId of
        Inl e \<Rightarrow> (Some e, w')
      | Inr correctChain \<Rightarrow> if \<not> correctChain then (Some WrongChain, w') else (None, w'))"

definition swapInfo_of ::
  "Surroundings \<Rightarrow> SwapParams \<Rightarrow> InterfaceTrade \<Rightarrow> SwapResult \<Rightarrow> TransactionInfo"
where
  "swapInfo_of env p t result =
     \<lparr> info_type = Swap,
       inputCurrencyId = currencyId env (currency (inputAmount t)),
       outputCurrencyId = currencyId env (currency (outputAmount t)),
       isUniswapXOrder = (result_type result = UniswapX \<or> result_type result = UniswapXv2),
       amounts =
         (if tradeType t = EXACT_INPUT
          then ExactInputAmounts
                 (quotient (inputAmount t))
                 (quotient (outputAmount t))
                 (quotient (minimumAmountOut t (allowedSlippage p)))
          else ExactOutputAmounts
                 (quotient (maximumAmountIn t (allowedSlippage p)))
                 (quotient (outputAmount t))
                 (quotient (inputAmount t))) \<rparr>"

text \<open>The order the \<^verbatim>\<open>UniswapX\<close> and \<^verbatim>\<open>UniswapXv2\<close> cases of the switch give to \<^verbatim>\<open>addOrder\<close>.\<close>

definition order_of ::
  "Surroundings \<Rightarrow> InterfaceTrade \<Rightarrow> UniswapXOrderResponse \<Rightarrow> TransactionInfo \<Rightarrow> UniswapXOrderDetails"
where
  "order_of env t response info =
     \<lparr> offerer = address (useAccount env),
       order_orderHash = orderHash response,
       order_chainId = useSupportedChainId env (account_chainId (useAccount env)),
       expiry = deadline response,
       swapInfo = info,
       order_encodedOrder = encodedOrder response,
       order_offchainOrderType =
         (if isUniswapXTrade env t then offchainOrderType t else Some DUTCH_AUCTION) \<rparr>"

text \<open>
  From \<^verbatim>\<open>await swapCallback()\<close> to the end of the callback. The arguments of
  \<^verbatim>\<open>addTransaction\<close> are evaluated before the call, so when \<^verbatim>\<open>toNumber()\<close> throws the
  callback throws and \<^verbatim>\<open>addTransaction\<close> is not called.
\<close>

definition executeSwap ::
  "Surroundings \<Rightarrow> SwapParams \<Rightarrow> InterfaceTrade \<Rightarrow> World \<Rightarrow> (SwapError + SwapResult) \<times> World"
where
  "executeSwap env p t w =
     (let w1 = w \<lparr> invoked := invoked w @ [swapCallback env p] \<rparr> in
      case await_callback env (swapCallback env p) of
        Inl e \<Rightarrow> (Inl e, w1)
      | Inr result \<Rightarrow>
          (let info = swapInfo_of env p t result in
           case result of
             UniswapXSwapResult response \<Rightarrow>
               (Inr result, addOrder (order_of env t response info) w1)
           | UniswapXv2SwapResult response \<Rightarrow>
               (Inr result, addOrder (order_of env t response info) w1)
           | ClassicSwapResult response dl \<Rightarrow>
               (case optional_toNumber dl of
                  Inl e \<Rightarrow> (Inl e, w1)
                | Inr number \<Rightarrow> (Inr result, addTransaction response info number w1))))"

text \<open>
  The callback \<^verbatim>\<open>useSwapCallback\<close> returns, run in a world: what it returns or throws,
  and the world afterwards.
\<close>

definition useSwapCallback ::
  "Surroundings \<Rightarrow> SwapParams \<Rightarrow> World \<Rightarrow> (SwapError + SwapResult) \<times> World"
where
  "useSwapCallback env p w =
     (let account = useAccount env;
          supportedConnectedChainId = useSupportedChainId env (account_chainId account);
          swapChainId = useMultichainContext env
      in case trade p of
           None \<Rightarrow> (Inl MissingTrade, w)
         | Some t \<Rightarrow>
             if \<not> isConnected account \<or> \<not> Boolean_optional_string (address account)
             then (Inl WalletNotConnected, w)
             else (case swapChainId of
                     None \<Rightarrow> (Inl MissingSwapChainId, w)
                   | Some cid \<Rightarrow>
                       if cid = 0 then (Inl MissingSwapChainId, w)
                       else if \<not> isEVMChain env cid then (Inl NonEVMChain, w)
                       else if \<not> Boolean_number supportedConnectedChainId
                               \<or> supportedConnectedChainId \<noteq> Some cid
                       then (case switchChain env cid w of
                               (Some e, w') \<Rightarrow> (Inl e, w')
                             | (None, w') \<Rightarrow> executeSwap env p t w')
                       else executeSwap env p t w))"

subsection \<open>\<^verbatim>\<open>useSwapTransactionStatus\<close>\<close>

text \<open>
  The enum \<^verbatim>\<open>TransactionStatus\<close> is imported; a status is kept by the name of its
  member.
\<close>

record TransactionDetails =
  status :: string

text \<open>
  Modelled from the spec: the hook \<^verbatim>\<open>useTransaction\<close> of \<^verbatim>\<open>state/transactions/hooks\<close>
  is not among the sources. It looks a transaction hash up in the transaction store and
  gives \<^verbatim>\<open>undefined\<close> when it gets no hash or the store has no transaction for it.
\<close>

definition useTransaction ::
  "(string \<rightharpoonup> TransactionDetails) \<Rightarrow> string option \<Rightarrow> TransactionDetails option"
where
  "useTransaction store transactionHash =
     (case transactionHash of None \<Rightarrow> None | Some h \<Rightarrow> store h)"

definition useSwapTransactionStatus ::
  "(string \<rightharpoonup> TransactionDetails) \<Rightarrow> SwapResult option \<Rightarrow> string option"
where
  "useSwapTransactionStatus store swapResult =
     (let transaction =
            useTransaction store
              (case swapResult of
                 Some (ClassicSwapResult response _) \<Rightarrow> Some (hash response)
               | _ \<Rightarrow> None)
      in case transaction of None \<Rightarrow> None | Some tx \<Rightarrow> Some (status tx))"

section \<open>Conditions and examples for stating the properties\<close>

text \<open>
  The inputs the callback of \<^verbatim>\<open>useSwapCallback\<close> is said to refuse before it
  delegates: the trade is undefined; the account is not connected or has no address
  (undefined or the empty string); the swap chain id is missing (undefined or \<open>0\<close>); the
  swap chain is not an EVM chain; or the connected chain differs from the swap chain
  and switching to the swap chain fails (\<^verbatim>\<open>selectChain\<close> resolves to false or
  rejects).
\<close>

definition inputs_rejected :: "Surroundings \<Rightarrow> SwapParams \<Rightarrow> bool" where
  "inputs_rejected env p =
     (trade p = None
      \<or> \<not> isConnected (useAccount env)
      \<or> address (useAccount env) = None
      \<or> address (useAccount env) = Some []
      \<or> (case useMultichainContext env of
            None \<Rightarrow> True
          | Some cid \<Rightarrow>
              cid = 0
              \<or> \<not> isEVMChain env cid
              \<or> (useSupportedChainId env (account_chainId (useAccount env)) \<noteq> Some cid
                  \<and> useSelectChain env cid \<noteq> Inr True)))"

text \<open>
  Example values: a classic exact-input trade with a fee, a UniswapX exact-output
  trade, and surroundings where the wallet is connected to chain 10 while the swap is on
  chain 1 and the switch succeeds.
\<close>

definition example_classic_trade :: InterfaceTrade where
  "example_classic_trade =
     \<lparr> tradeType = EXACT_INPUT,
       inputAmount = \<lparr> currency = ''ETH'', quotient = 1000 \<rparr>,
       outputAmount = \<lparr> currency = ''USDC'', quotient = 3000 \<rparr>,
       minimumAmountOut = (\<lambda>slippage. \<lparr> currency = ''USDC'', quotient = 2990 \<rparr>),
       maximumAmountIn = (\<lambda>slippage. \<lparr> currency = ''ETH'', quotient = 1000 \<rparr>),
       swapFee = Some \<lparr> percent = (1, 400), recipient = ''0xfee'', amount = 7 \<rparr>,
       offchainOrderType = None \<rparr>"

definition example_uniswapx_trade :: InterfaceTrade where
  "example_uniswapx_trade =
     \<lparr> tradeType = EXACT_OUTPUT,
       inputAmount = \<lparr> currency = ''ETH'', quotient = 1000 \<rparr>,
       outputAmount = \<lparr> currency = ''USDC'', quotient = 3000 \<rparr>,
       minimumAmountOut = (\<lambda>slippage. \<lparr> currency = ''USDC'', quotient = 3000 \<rparr>),
       maximumAmountIn = (\<lambda>slippage. \<lparr> currency = ''ETH'', quotient = 1010 \<rparr>),
       swapFee = None,
       offchainOrderType = Some DUTCH_AUCTION \<rparr>"

definition example_surroundings :: Surroundings where
  "example_surroundings =
     \<lparr> isClassicTrade = (\<lambda>t. offchainOrderType t = None),
       isUniswapXTrade = (\<lambda>t. offchainOrderType t \<noteq> None),
       isEVMChain = (\<lambda>cid. cid < 1000000),
       currencyId = (\<lambda>c. c),
       useAccount = \<lparr> isConnected = True, address = Some ''0xabc'', account_chainId = Some 10 \<rparr>,
       useSupportedChainId = (\<lambda>cid. cid),
       useMultichainContext = Some 1,
       useUniswapXSwapCallback =
         (\<lambda>args. Inr (UniswapXSwapResult
            \<lparr> orderHash = ''0xhash'', deadline = 1700000000, encodedOrder = ''0xorder'' \<rparr>)),
       useUniversalRouterSwapCallback =
         (\<lambda>args. Inr (ClassicSwapResult \<lparr> hash = ''0xtx'' \<rparr> (Some 1700000000))),
       useSelectChain = (\<lambda>cid. Inr True) \<rparr>"

text \<open>
  The same surroundings with a universal-router callback whose result has the deadline
  \<open>2 ^ 53\<close>, and with a UniswapX callback whose result has the fill type \<open>UniswapXv2\<close>.
\<close>

definition example_overflow_surroundings :: Surroundings where
  "example_overflow_surroundings =
     example_surroundings
       \<lparr> useUniversalRouterSwapCallback :=
           (\<lambda>args. Inr (ClassicSwapResult \<lparr> hash = ''0xtx'' \<rparr> (Some 9007199254740992))) \<rparr>"

definition example_v2_surroundings :: Surroundings where
  "example_v2_surroundings =
     example_surroundings
       \<lparr> useUniswapXSwapCallback :=
           (\<lambda>args. Inr (UniswapXv2SwapResult
              \<lparr> orderHash = ''0xhash2'', deadline = 1700000001, encodedOrder = ''0xorder2'' \<rparr>)) \<rparr>"

definition example_params :: "InterfaceTrade option \<Rightarrow> SwapParams" where
  "example_params t =
     \<lparr> trade = t,
       fiatValues = \<lparr> amountIn = Some 3000, amountOut = Some 2995, feeUsd = None \<rparr>,
       allowedSlippage = (1, 200),
       permitSignature = None \<rparr>"

definition example_world :: World where
  "example_world = \<lparr> orders = [], transactions = [], invoked = [], selected_chains = [] \<rparr>"

section \<open>Properties of \<^verbatim>\<open>orderedTransportUrls\<close>\<close>

lemma set_foldl_Set_add: "set (foldl Set_add acc xs) = set acc \<union> set xs"
  by (induction xs arbitrary: acc) (auto simp: Set_add_def)

lemma set_new_Set: "set (new_Set xs) = set xs"
  by (simp add: new_Set_def set_foldl_Set_add)

lemma new_Set_snoc: "new_Set (xs @ [x]) = (if x \<in> set xs then new_Set xs else new_Set xs @ [x])"
proof -
  have "new_Set (xs @ [x]) = Set_add (new_Set xs) x"
    by (simp add: new_Set_def)
  then show ?thesis
    by (simp add: Set_add_def set_new_Set)
qed

lemma first_occurrences_snoc:
  "first_occurrences (xs @ [x]) =
     (if x \<in> set xs then first_occurrences xs else first_occurrences xs @ [x])"
proof -
  let ?n = "length xs"
  let ?P = "\<lambda>i. (xs @ [x]) ! i \<notin> set (take i (xs @ [x]))"
  let ?f = "\<lambda>i. (xs @ [x]) ! i"
  have len: "[0..<length (xs @ [x])] = [0..<?n] @ [?n]"
    by simp
  have keep: "filter ?P [0..<?n] = filter (\<lambda>i. xs ! i \<notin> set (take i xs)) [0..<?n]"
    by (rule filter_cong) (auto simp: nth_append)
  have same: "map ?f (filter (\<lambda>i. xs ! i \<notin> set (take i xs)) [0..<?n])
            = map (\<lambda>i. xs ! i) (filter (\<lambda>i. xs ! i \<notin> set (take i xs)) [0..<?n])"
    by (rule map_cong) (auto simp: nth_append)
  have new: "map ?f (filter ?P [?n]) = (if x \<in> set xs then [] else [x])"
    by simp
  have "first_occurrences (xs @ [x]) = map ?f (filter ?P ([0..<?n] @ [?n]))"
    unfolding first_occurrences_def len ..
  also have "\<dots> = map ?f (filter ?P [0..<?n]) @ map ?f (filter ?P [?n])"
    by (simp only: filter_append map_append)
  also have "\<dots> = first_occurrences xs @ (if x \<in> set xs then [] else [x])"
    unfolding keep same new first_occurrences_def ..
  finally show ?thesis
    by simp
qed

lemma new_Set_first_occurrences: "new_Set xs = first_occurrences xs"
proof (induction xs rule: rev_induct)
  case Nil
  show ?case by (simp add: new_Set_def first_occurrences_def)
next
  case (snoc x xs)
  then show ?case by (simp add: new_Set_snoc first_occurrences_snoc)
qed

lemma distinct_new_Set: "distinct (new_Set xs)"
proof (induction xs rule: rev_induct)
  case Nil
  show ?case by (simp add: new_Set_def)
next
  case (snoc x xs)
  then show ?case by (simp add: new_Set_snoc set_new_Set)
qed

text \<open>
  C1. For every chain-info object, \<open>orderedTransportUrls\<close> returns the concatenation of
  the interface, default, public and fallback HTTP URL lists, in that order, with the
  falsy (empty) entries removed and each URL kept only at its first occurrence; the
  result has no duplicates; a missing list counts as empty.
\<close>

theorem orderedTransportUrls_first_occurrences:
  "orderedTransportUrls info =
     first_occurrences
       (filter (\<lambda>url. url \<noteq> [])
          (  (case interface_rpc (rpcUrls info) of None \<Rightarrow> [] | Some e \<Rightarrow> http e)
           @ (case default_rpc (rpcUrls info) of None \<Rightarrow> [] | Some e \<Rightarrow> http e)
           @ (case public_rpc (rpcUrls info) of None \<Rightarrow> [] | Some e \<Rightarrow> http e)
           @ (case fallback_rpc (rpcUrls info) of None \<Rightarrow> [] | Some e \<Rightarrow> http e)))
   \<and> distinct (orderedTransportUrls info)"
proof -
  have "Boolean_string = (\<lambda>url. url \<noteq> [])"
    by (rule ext) (simp add: Boolean_string_def)
  then show ?thesis
    by (simp add: orderedTransportUrls_def Array_from_def http_or_empty_def
        new_Set_first_occurrences [symmetric] distinct_new_Set)
qed

theorem orderedTransportUrls_first_occurrences_witness:
  "orderedTransportUrls
     \<lparr> rpcUrls = \<lparr> interface_rpc = Some \<lparr> http = [''https://a'', ''''] \<rparr>,
                    default_rpc = None,
                    public_rpc = Some \<lparr> http = [''https://b'', ''https://a''] \<rparr>,
                    fallback_rpc = Some \<lparr> http = [''https://c'', ''https://b''] \<rparr> \<rparr> \<rparr>
   = [''https://a'', ''https://b'', ''https://c'']"
  using orderedTransportUrls_first_occurrences
    [of "\<lparr> rpcUrls = \<lparr> interface_rpc = Some \<lparr> http = [''https://a'', ''''] \<rparr>,
                    default_rpc = None,
                    public_rpc = Some \<lparr> http = [''https://b'', ''https://a''] \<rparr>,
                    fallback_rpc = Some \<lparr> http = [''https://c'', ''https://b''] \<rparr> \<rparr> \<rparr>"]
  by (simp add: first_occurrences_def)

section \<open>Properties of \<^verbatim>\<open>createWagmiConnectors\<close>\<close>

lemma kinds_baseConnectors:
  "map kind_of (baseConnectors env) =
     [Porto, Binance]
     @ (if isTestEnv env \<and> \<not> isPlaywrightEnv env then [] else [WalletConnect])
     @ [EmbeddedWallet, Coinbase, Safe]"
  by (simp add: baseConnectors_def)

text \<open>
  C7. \<open>createWagmiConnectors\<close> produces the connectors Porto, Binance, WalletConnect,
  embedded wallet, Coinbase, Safe in this order, followed by the mock connector, where
  WalletConnect is left out exactly in a test environment that is not Playwright and the
  mock connector is present exactly when \<open>includeMockConnector\<close> is true; the default
  connectors are built with \<open>includeMockConnector\<close> equal to \<open>isPlaywrightEnv()\<close>.
\<close>

theorem createWagmiConnectors_kinds:
  "map kind_of (createWagmiConnectors env includeMockConnector) =
     filter (\<lambda>k. (k = WalletConnect \<longrightarrow> \<not> (isTestEnv env \<and> \<not> isPlaywrightEnv env))
                \<and> (k = Mock \<longrightarrow> includeMockConnector))
       [Porto, Binance, WalletConnect, EmbeddedWallet, Coinbase, Safe, Mock]
   \<and> defaultConnectors env = createWagmiConnectors env (isPlaywrightEnv env)
   \<and> (Mock \<in> set (map kind_of (defaultConnectors env)) \<longleftrightarrow> isPlaywrightEnv env)"
  by (simp add: createWagmiConnectors_def defaultConnectors_def kinds_baseConnectors del: set_map)

theorem createWagmiConnectors_kinds_witness:
  "map kind_of
     (createWagmiConnectors
        \<lparr> isTestEnv = True, isPlaywrightEnv = False, WC_PARAMS = ''wc'',
          UNISWAP_WEB_URL = ''https://app'', UNISWAP_LOGO = ''/logo.png'',
          PLAYWRIGHT_CONNECT_ADDRESS = ''0xabc'' \<rparr> False)
   = [Porto, Binance, EmbeddedWallet, Coinbase, Safe]
   \<and> map kind_of
     (createWagmiConnectors
        \<lparr> isTestEnv = True, isPlaywrightEnv = True, WC_PARAMS = ''wc'',
          UNISWAP_WEB_URL = ''https://app'', UNISWAP_LOGO = ''/logo.png'',
          PLAYWRIGHT_CONNECT_ADDRESS = ''0xabc'' \<rparr> True)
   = [Porto, Binance, WalletConnect, EmbeddedWallet, Coinbase, Safe, Mock]"
  using createWagmiConnectors_kinds
    [of "\<lparr> isTestEnv = True, isPlaywrightEnv = False, WC_PARAMS = ''wc'',
          UNISWAP_WEB_URL = ''https://app'', UNISWAP_LOGO = ''/logo.png'',
          PLAYWRIGHT_CONNECT_ADDRESS = ''0xabc'' \<rparr>" False]
    createWagmiConnectors_kinds
    [of "\<lparr> isTestEnv = True, isPlaywrightEnv = True, WC_PARAMS = ''wc'',
          UNISWAP_WEB_URL = ''https://app'', UNISWAP_LOGO = ''/logo.png'',
          PLAYWRIGHT_CONNECT_ADDRESS = ''0xabc'' \<rparr>" True]
  by simp

section \<open>Properties of \<^verbatim>\<open>clientToProvider\<close>\<close>

lemma clientToProvider_chain:
  "chain c = Some ch \<Longrightarrow>
   clientToProvider new (Some c) chainId s =
     (case providers s (client_ref c) of
        Some cached \<Rightarrow> Inr (Some cached, s)
      | None \<Rightarrow>
          (case new (transport c)
                  \<lparr> network_chainId = chain_id ch, network_name = chain_name ch,
                    ensAddress = ensAddress_of ch \<rparr> of
             Inl e \<Rightarrow> Inl e
           | Inr held \<Rightarrow>
               Inr (Some \<lparr> provider_ref = next_ref s, provider_transport = transport c,
                            provider_network = held \<rparr>,
                    s \<lparr> providers := (providers s)(client_ref c \<mapsto>
                           \<lparr> provider_ref = next_ref s, provider_transport = transport c,
                             provider_network = held \<rparr>),
                        next_ref := Suc (next_ref s) \<rparr>)))"
  by (simp add: clientToProvider_def network_of_def Let_def split: option.splits sum.splits)

lemma clientToProvider_no_chain:
  "chain c = None \<Longrightarrow> clientToProvider new (Some c) chainId s = Inl TypeError"
  by (simp add: clientToProvider_def)

lemma clientToProvider_undefined_client:
  "clientToProvider new None chainId s = Inr (None, s)"
  by (simp add: clientToProvider_def)

lemma clientToProvider_returns:
  assumes "clientToProvider new (Some c) chainId s = Inr (r, s')"
  shows "chain c \<noteq> None \<and> r \<noteq> None \<and> providers s' (client_ref c) = r"
proof (cases "chain c")
  case None
  with assms show ?thesis by (simp add: clientToProvider_no_chain)
next
  case (Some ch)
  note ch = Some
  show ?thesis
  proof (cases "providers s (client_ref c)")
    case None
    with assms ch show ?thesis
      by (auto simp: clientToProvider_chain split: sum.splits)
  next
    case (Some cached)
    with ch have "clientToProvider new (Some c) chainId s = Inr (Some cached, s)"
      by (simp add: clientToProvider_chain)
    with assms have "r = Some cached" and "s' = s" by simp_all
    with Some ch show ?thesis by simp
  qed
qed

lemma clientToProvider_cached:
  "chain c \<noteq> None \<Longrightarrow> providers s (client_ref c) = Some p \<Longrightarrow>
   clientToProvider new (Some c) chainId s = Inr (Some p, s)"
  by (auto simp: clientToProvider_chain)

lemma clientToProvider_accepted:
  assumes "chain c = Some ch"
    and "new (transport c)
           \<lparr> network_chainId = chain_id ch, network_name = chain_name ch,
             ensAddress = ensAddress_of ch \<rparr> = Inr held"
  shows "\<exists>provider s'. clientToProvider new (Some c) chainId s = Inr (Some provider, s')"
  using assms
  by (cases "providers s (client_ref c)") (simp_all add: clientToProvider_chain)

lemma clientToProvider_refused:
  assumes "chain c = Some ch"
    and "providers s (client_ref c) = None"
    and "new (transport c)
           \<lparr> network_chainId = chain_id ch, network_name = chain_name ch,
             ensAddress = ensAddress_of ch \<rparr> = Inl e"
  shows "clientToProvider new (Some c) chainId s = Inl e"
  using assms by (simp add: clientToProvider_chain)

lemma clientToProvider_keeps:
  assumes "clientToProvider new client chainId s = Inr (r, s')"
    and "providers s k = Some p"
  shows "providers s' k = Some p"
proof (cases client)
  case None
  with assms show ?thesis by (simp add: clientToProvider_undefined_client)
next
  case (Some c)
  note c = Some
  show ?thesis
  proof (cases "chain c")
    case None
    with assms c show ?thesis by (simp add: clientToProvider_no_chain)
  next
    case (Some ch)
    with assms c show ?thesis
      by (auto simp: clientToProvider_chain split: option.splits sum.splits)
  qed
qed

lemma after_calls_keeps:
  "providers s k = Some p \<Longrightarrow> providers (after_calls new calls s) k = Some p"
proof (induction calls arbitrary: s)
  case Nil
  then show ?case by simp
next
  case (Cons call calls)
  obtain client chainId where call: "call = (client, chainId)" by (cases call)
  show ?case
  proof (cases "clientToProvider new client chainId s")
    case (Inl e)
    with Cons call show ?thesis by simp
  next
    case (Inr res)
    obtain r s' where res: "res = (r, s')" by (cases res)
    with Inr Cons.prems have "providers s' k = Some p"
      by (auto dest: clientToProvider_keeps)
    with Cons.IH Inr res call show ?thesis by simp
  qed
qed

text \<open>
  C2. \<open>clientToProvider\<close> is memoized per client instance: when a call with a defined
  client has returned, it has returned a provider, and every later call with the same
  client returns the same provider object and leaves the cache as it is, whatever chain
  id the later call is given and whatever calls were made in between. The first call
  does return a provider when the client has a chain and the constructor accepts the
  network of the chain.
\<close>

theorem clientToProvider_memoized:
  "(clientToProvider new (Some c) chainId1 s = Inr (r, s1) \<longrightarrow>
      r \<noteq> None
      \<and> clientToProvider new (Some c) chainId2 (after_calls new calls s1)
          = Inr (r, after_calls new calls s1))
   \<and> (chain c = Some ch
       \<and> new (transport c)
            \<lparr> network_chainId = chain_id ch, network_name = chain_name ch,
              ensAddress = ensAddress_of ch \<rparr> = Inr held \<longrightarrow>
      (\<exists>provider s1. clientToProvider new (Some c) chainId1 s = Inr (Some provider, s1)))"
proof (intro conjI impI)
  assume first: "clientToProvider new (Some c) chainId1 s = Inr (r, s1)"
  then have c: "chain c \<noteq> None" and r: "r \<noteq> None" and p: "providers s1 (client_ref c) = r"
    using clientToProvider_returns by blast+
  from r obtain provider where provider: "r = Some provider" by auto
  with p have "providers (after_calls new calls s1) (client_ref c) = Some provider"
    by (simp add: after_calls_keeps)
  with c have "clientToProvider new (Some c) chainId2 (after_calls new calls s1)
                 = Inr (Some provider, after_calls new calls s1)"
    by (rule clientToProvider_cached)
  with provider show "clientToProvider new (Some c) chainId2 (after_calls new calls s1)
                 = Inr (r, after_calls new calls s1)"
    by simp
  from r show "r \<noteq> None" .
next
  assume "chain c = Some ch
       \<and> new (transport c)
            \<lparr> network_chainId = chain_id ch, network_name = chain_name ch,
              ensAddress = ensAddress_of ch \<rparr> = Inr held"
  then show "\<exists>provider s1. clientToProvider new (Some c) chainId1 s = Inr (Some provider, s1)"
    using clientToProvider_accepted by blast
qed

theorem clientToProvider_memoized_witness:
  "clientToProvider (ethers_Web3Provider Map.empty)
     (Some \<lparr> client_ref = 7,
             chain = Some \<lparr> chain_id = 1, chain_name = ''Ethereum'', contracts = None \<rparr>,
             transport = ''t'' \<rparr>)
     (Some 10)
     (after_calls (ethers_Web3Provider Map.empty)
        [(Some \<lparr> client_ref = 8,
                 chain = Some \<lparr> chain_id = 10, chain_name = ''OP Mainnet'', contracts = None \<rparr>,
                 transport = ''u'' \<rparr>, None)]
        \<lparr> providers = [7 \<mapsto> \<lparr> provider_ref = 0, provider_transport = ''t'',
                                 provider_network = \<lparr> network_chainId = 1,
                                                       network_name = ''Ethereum'',
                                                       ensAddress = None \<rparr> \<rparr>],
          next_ref = Suc 0 \<rparr>)
   = Inr (Some \<lparr> provider_ref = 0, provider_transport = ''t'',
                  provider_network = \<lparr> network_chainId = 1, network_name = ''Ethereum'',
                                        ensAddress = None \<rparr> \<rparr>,
          after_calls (ethers_Web3Provider Map.empty)
            [(Some \<lparr> client_ref = 8,
                     chain = Some \<lparr> chain_id = 10, chain_name = ''OP Mainnet'', contracts = None \<rparr>,
                     transport = ''u'' \<rparr>, None)]
            \<lparr> providers = [7 \<mapsto> \<lparr> provider_ref = 0, provider_transport = ''t'',
                                     provider_network = \<lparr> network_chainId = 1,
                                                           network_name = ''Ethereum'',
                                                           ensAddress = None \<rparr> \<rparr>],
              next_ref = Suc 0 \<rparr>)"
proof -
  let ?new = "ethers_Web3Provider Map.empty"
  let ?c = "\<lparr> client_ref = 7,
              chain = Some \<lparr> chain_id = 1, chain_name = ''Ethereum'', contracts = None \<rparr>,
              transport = ''t'' \<rparr>"
  let ?p = "\<lparr> provider_ref = 0, provider_transport = ''t'',
              provider_network = \<lparr> network_chainId = 1, network_name = ''Ethereum'',
                                    ensAddress = None \<rparr> \<rparr>"
  let ?s = "\<lparr> providers = Map.empty, next_ref = 0 \<rparr>"
  let ?s1 = "\<lparr> providers = [7 \<mapsto> ?p], next_ref = Suc 0 \<rparr>"
  let ?calls = "[(Some \<lparr> client_ref = 8,
                    chain = Some \<lparr> chain_id = 10, chain_name = ''OP Mainnet'', contracts = None \<rparr>,
                    transport = ''u'' \<rparr>, None)]"
  have first: "clientToProvider ?new (Some ?c) (Some 1) ?s = Inr (Some ?p, ?s1)"
    by (simp add: clientToProvider_def network_of_def ensAddress_of_def Let_def
        ethers_Web3Provider_def getNetwork_def)
  from clientToProvider_memoized
         [where new = ?new and c = ?c and ?chainId1.0 = "Some 1" and s = ?s
            and r = "Some ?p" and ?s1.0 = ?s1 and ?chainId2.0 = "Some 10" and calls = ?calls]
       first
  show ?thesis
    by blast
qed

text \<open>
  C8 (as amended). \<open>clientToProvider\<close> returns undefined if and only if its client
  argument is undefined. For a defined client with a chain the undefined-network branch
  is unreachable and, whatever the chain id argument is, the call returns a provider
  when the client has a cached provider or the constructor accepts the network of the
  chain; when there is no cached provider and the constructor throws, the call throws
  the error of the constructor.
\<close>

theorem clientToProvider_undefined_iff:
  "((\<exists>s'. clientToProvider new client chainId s = Inr (None, s')) \<longleftrightarrow> client = None)
   \<and> (\<forall>c ch. client = Some c \<and> chain c = Some ch \<longrightarrow>
        (providers s (client_ref c) \<noteq> None
         \<or> (\<exists>held. new (transport c)
                      \<lparr> network_chainId = chain_id ch, network_name = chain_name ch,
                        ensAddress = ensAddress_of ch \<rparr> = Inr held) \<longrightarrow>
           (\<exists>provider s'. clientToProvider new client chainId s = Inr (Some provider, s')))
        \<and> (\<forall>e. providers s (client_ref c) = None
              \<and> new (transport c)
                   \<lparr> network_chainId = chain_id ch, network_name = chain_name ch,
                     ensAddress = ensAddress_of ch \<rparr> = Inl e \<longrightarrow>
              clientToProvider new client chainId s = Inl e))"
proof (cases client)
  case None
  then show ?thesis by (simp add: clientToProvider_undefined_client)
next
  case (Some c)
  note c = Some
  show ?thesis
  proof (cases "chain c")
    case None
    with c show ?thesis by (simp add: clientToProvider_no_chain)
  next
    case (Some ch)
    have no_undefined: "\<not> (\<exists>s'. clientToProvider new (Some c) chainId s = Inr (None, s'))"
      using clientToProvider_returns [of new c chainId s None] by blast
    have cached: "providers s (client_ref c) \<noteq> None \<Longrightarrow>
        \<exists>provider s'. clientToProvider new (Some c) chainId s = Inr (Some provider, s')"
      using Some clientToProvider_cached [of c s _ new chainId] by auto
    from c Some no_undefined cached show ?thesis
      using clientToProvider_accepted [of c ch new _ chainId s]
        clientToProvider_refused [of c ch s new _ chainId]
      by auto
  qed
qed

theorem clientToProvider_undefined_iff_witness:
  "(\<exists>provider s'.
      clientToProvider (ethers_Web3Provider Map.empty)
        (Some \<lparr> client_ref = 7,
                chain = Some \<lparr> chain_id = 1, chain_name = ''Ethereum'', contracts = None \<rparr>,
                transport = ''t'' \<rparr>)
        None \<lparr> providers = Map.empty, next_ref = 0 \<rparr> = Inr (Some provider, s'))
   \<and> (\<exists>s'. clientToProvider (ethers_Web3Provider Map.empty) None (Some 1)
              \<lparr> providers = Map.empty, next_ref = 0 \<rparr> = Inr (None, s'))"
  using clientToProvider_undefined_iff
    [of "ethers_Web3Provider Map.empty"
        "Some \<lparr> client_ref = 7,
                chain = Some \<lparr> chain_id = 1, chain_name = ''Ethereum'', contracts = None \<rparr>,
                transport = ''t'' \<rparr>" None "\<lparr> providers = Map.empty, next_ref = 0 \<rparr>"]
    clientToProvider_undefined_iff
      [of "ethers_Web3Provider Map.empty" None "Some 1" "\<lparr> providers = Map.empty, next_ref = 0 \<rparr>"]
  by (simp add: ethers_Web3Provider_def getNetwork_def)

text \<open>
  The claim C8 as stated fails: the client has the chain \<open>{id: 5, name: 'homestead'}\<close>
  and no cached provider, ethers knows \<^verbatim>\<open>homestead\<close> with chain id \<open>1\<close> and refuses the
  network, and the call throws instead of returning a provider.
\<close>

theorem clientToProvider_always_returns_counterexample:
  "clientToProvider
     (ethers_Web3Provider
        [''homestead'' \<mapsto>
           \<lparr> standard_chainId = 1,
             standard_ensAddress = Some ''0x00000000000C2E074eC69A0dFb2997BA6C7d2e1e'' \<rparr>])
     (Some \<lparr> client_ref = 7,
             chain = Some \<lparr> chain_id = 5, chain_name = ''homestead'', contracts = None \<rparr>,
             transport = ''t'' \<rparr>)
     None \<lparr> providers = Map.empty, next_ref = 0 \<rparr>
   = Inl (ArgumentError ''network chainId mismatch'')"
  by (simp add: clientToProvider_def network_of_def ensAddress_of_def Let_def
      ethers_Web3Provider_def getNetwork_def)

section \<open>Properties of \<^verbatim>\<open>getUniversalRouterFeeFields\<close>\<close>

lemma getUniversalRouterFeeFields_Some:
  "getUniversalRouterFeeFields env (Some t) =
     (if \<not> isClassicTrade env t then None
      else case swapFee t of
             None \<Rightarrow> None
           | Some fee \<Rightarrow>
               if tradeType t = EXACT_INPUT
               then Some (feeOptions (percent fee) (recipient fee))
               else Some (flatFeeOptions (amount fee) (recipient fee)))"
  by (simp add: getUniversalRouterFeeFields_def guard_def)

text \<open>
  C9. \<open>getUniversalRouterFeeFields\<close> returns undefined if and only if the trade is not a
  classic trade or has no swap fee; for a classic trade with a swap fee it returns
  \<open>feeOptions\<close> with the fee's percent when the trade type is \<open>EXACT_INPUT\<close> and
  \<open>flatFeeOptions\<close> with the fee's amount otherwise, in both cases with the fee's
  recipient.
\<close>

theorem getUniversalRouterFeeFields_cases:
  "(getUniversalRouterFeeFields env trade_opt = None \<longleftrightarrow>
      \<not> guard (isClassicTrade env) trade_opt \<or> (\<exists>t. trade_opt = Some t \<and> swapFee t = None))
   \<and> (\<forall>t fee. trade_opt = Some t \<and> isClassicTrade env t \<and> swapFee t = Some fee \<longrightarrow>
         getUniversalRouterFeeFields env trade_opt =
           (if tradeType t = EXACT_INPUT
            then Some (feeOptions (percent fee) (recipient fee))
            else Some (flatFeeOptions (amount fee) (recipient fee))))"
proof (cases trade_opt)
  case None
  then show ?thesis by (simp add: getUniversalRouterFeeFields_def guard_def)
next
  case (Some t)
  then show ?thesis
    by (cases "swapFee t") (simp_all add: getUniversalRouterFeeFields_Some guard_def)
qed

theorem getUniversalRouterFeeFields_cases_witness:
  "getUniversalRouterFeeFields example_surroundings (Some example_classic_trade)
     = Some (feeOptions (1, 400) ''0xfee'')
   \<and> getUniversalRouterFeeFields example_surroundings
       (Some (example_classic_trade \<lparr> tradeType := EXACT_OUTPUT \<rparr>))
     = Some (flatFeeOptions 7 ''0xfee'')
   \<and> getUniversalRouterFeeFields example_surroundings (Some example_uniswapx_trade) = None"
  using getUniversalRouterFeeFields_cases [of example_surroundings "Some example_classic_trade"]
    getUniversalRouterFeeFields_cases
      [of example_surroundings "Some (example_classic_trade \<lparr> tradeType := EXACT_OUTPUT \<rparr>)"]
    getUniversalRouterFeeFields_cases [of example_surroundings "Some example_uniswapx_trade"]
  by (simp add: guard_def example_surroundings_def example_classic_trade_def
      example_uniswapx_trade_def)


section \<open>Properties of \<^verbatim>\<open>useSwapCallback\<close>\<close>

lemma executeSwap_invoked:
  "invoked (snd (executeSwap env p t w)) = invoked w @ [swapCallback env p]"
  by (simp add: executeSwap_def Let_def addOrder_def addTransaction_def
      split: sum.splits SwapResult.splits)

lemma executeSwap_throws:
  "await_callback env (swapCallback env p) = Inl e \<Longrightarrow>
   executeSwap env p t w = (Inl e, w \<lparr> invoked := invoked w @ [swapCallback env p] \<rparr>)"
  by (simp add: executeSwap_def Let_def)

lemma executeSwap_returns:
  "await_callback env (swapCallback env p) = Inr result \<Longrightarrow>
   executeSwap env p t w =
     (case result of
        UniswapXSwapResult response \<Rightarrow>
          (Inr result,
           addOrder (order_of env t response (swapInfo_of env p t result))
             (w \<lparr> invoked := invoked w @ [swapCallback env p] \<rparr>))
      | UniswapXv2SwapResult response \<Rightarrow>
          (Inr result,
           addOrder (order_of env t response (swapInfo_of env p t result))
             (w \<lparr> invoked := invoked w @ [swapCallback env p] \<rparr>))
      | ClassicSwapResult response dl \<Rightarrow>
          (case optional_toNumber dl of
             Inl e \<Rightarrow> (Inl e, w \<lparr> invoked := invoked w @ [swapCallback env p] \<rparr>)
           | Inr number \<Rightarrow>
               (Inr result,
                addTransaction response (swapInfo_of env p t result) number
                  (w \<lparr> invoked := invoked w @ [swapCallback env p] \<rparr>))))"
  by (simp add: executeSwap_def Let_def split: SwapResult.splits)

lemma optional_toNumber_safe:
  "(case dl of None \<Rightarrow> True | Some n \<Rightarrow> \<bar>n\<bar> < 2 ^ 53) \<Longrightarrow> optional_toNumber dl = Inr dl"
  by (cases dl) (simp_all add: optional_toNumber_def toNumber_def)

lemma executeSwap_records:
  assumes "await_callback env (swapCallback env p) = Inr result"
    and "executeSwap env p t w1 = (outcome, w')"
  shows "case result of
          UniswapXSwapResult response \<Rightarrow>
            outcome = Inr result
            \<and> orders w' = orders w1 @ [order_of env t response (swapInfo_of env p t result)]
            \<and> transactions w' = transactions w1
        | UniswapXv2SwapResult response \<Rightarrow>
            outcome = Inr result
            \<and> orders w' = orders w1 @ [order_of env t response (swapInfo_of env p t result)]
            \<and> transactions w' = transactions w1
        | ClassicSwapResult response dl \<Rightarrow>
            (case optional_toNumber dl of
               Inl e \<Rightarrow>
                 outcome = Inl e \<and> orders w' = orders w1 \<and> transactions w' = transactions w1
             | Inr number \<Rightarrow>
                 outcome = Inr result
                 \<and> transactions w' =
                     transactions w1 @ [(response, swapInfo_of env p t result, number)]
                 \<and> orders w' = orders w1)"
  using assms
  by (cases result)
     (auto simp: executeSwap_returns addOrder_def addTransaction_def split: sum.splits)

lemma executeSwap_outcome:
  assumes "executeSwap env p t w1 = (outcome, w')"
  shows "((\<exists>e. outcome = Inl e) \<longrightarrow> orders w' = orders w1 \<and> transactions w' = transactions w1)
     \<and> (\<forall>e. await_callback env (swapCallback env p) = Inl e \<longrightarrow> outcome = Inl e)
     \<and> (\<forall>result. outcome = Inr result \<longrightarrow> await_callback env (swapCallback env p) = Inr result)"
proof (cases "await_callback env (swapCallback env p)")
  case (Inl e)
  from executeSwap_throws [OF Inl, of t w1] assms Inl show ?thesis by auto
next
  case (Inr result)
  from executeSwap_records [OF Inr assms] Inr show ?thesis
    by (cases result) (auto split: sum.splits)
qed

lemma switchChain_world:
  "snd (switchChain env cid w) = w \<lparr> selected_chains := selected_chains w @ [cid] \<rparr>"
  by (simp add: switchChain_def Let_def split: sum.splits)

lemma switchChain_ok:
  "fst (switchChain env cid w) = None \<longleftrightarrow> useSelectChain env cid = Inr True"
  by (auto simp: switchChain_def Let_def split: sum.splits)

lemma useSwapCallback_rejected:
  assumes "inputs_rejected env p"
  shows "\<exists>e w'. useSwapCallback env p w = (Inl e, w') \<and> invoked w' = invoked w
           \<and> orders w' = orders w \<and> transactions w' = transactions w"
proof (cases "trade p")
  case None
  then show ?thesis by (simp add: useSwapCallback_def)
next
  case (Some t)
  note t = Some
  show ?thesis
  proof (cases "\<not> isConnected (useAccount env) \<or> \<not> Boolean_optional_string (address (useAccount env))")
    case True
    with t show ?thesis by (simp add: useSwapCallback_def Let_def)
  next
    case False
    note acc = False
    then have addr: "address (useAccount env) \<noteq> None" "address (useAccount env) \<noteq> Some []"
      by (auto simp: Boolean_optional_string_def Boolean_string_def split: option.splits)
    show ?thesis
    proof (cases "useMultichainContext env")
      case None
      with t acc show ?thesis by (simp add: useSwapCallback_def Let_def)
    next
      case (Some cid)
      note cid = Some
      show ?thesis
      proof (cases "cid = 0 \<or> \<not> isEVMChain env cid")
        case True
        with t acc cid show ?thesis by (auto simp: useSwapCallback_def Let_def)
      next
        case False
        with assms t acc addr cid
        have sw: "useSupportedChainId env (account_chainId (useAccount env)) \<noteq> Some cid"
          and fail: "useSelectChain env cid \<noteq> Inr True"
          by (auto simp: inputs_rejected_def)
        from fail obtain e where e: "fst (switchChain env cid w) = Some e"
          using switchChain_ok [of env cid w] by (cases "fst (switchChain env cid w)") auto
        then have "switchChain env cid w = (Some e, w \<lparr> selected_chains := selected_chains w @ [cid] \<rparr>)"
          using switchChain_world [of env cid w] by (cases "switchChain env cid w") simp
        with t acc cid False sw show ?thesis
          by (simp add: useSwapCallback_def Let_def)
      qed
    qed
  qed
qed

lemma useSwapCallback_accepted:
  assumes "\<not> inputs_rejected env p"
  shows "\<exists>t w1. trade p = Some t \<and> useSwapCallback env p w = executeSwap env p t w1
           \<and> invoked w1 = invoked w \<and> orders w1 = orders w \<and> transactions w1 = transactions w"
proof -
  from assms obtain t where t: "trade p = Some t"
    by (auto simp: inputs_rejected_def)
  from assms have acc: "isConnected (useAccount env)"
    "Boolean_optional_string (address (useAccount env))"
    by (auto simp: inputs_rejected_def Boolean_optional_string_def Boolean_string_def
        split: option.splits)
  from assms obtain cid where cid: "useMultichainContext env = Some cid" "cid \<noteq> 0"
    "isEVMChain env cid"
    by (auto simp: inputs_rejected_def split: option.splits)
  let ?supported = "useSupportedChainId env (account_chainId (useAccount env))"
  show ?thesis
  proof (cases "?supported = Some cid")
    case True
    with cid have "Boolean_number ?supported" by (simp add: Boolean_number_def)
    with True t acc cid have "useSwapCallback env p w = executeSwap env p t w"
      by (simp add: useSwapCallback_def Let_def)
    with t show ?thesis by blast
  next
    case False
    with assms cid have "useSelectChain env cid = Inr True"
      by (auto simp: inputs_rejected_def)
    then have "fst (switchChain env cid w) = None"
      by (simp add: switchChain_ok)
    then have "switchChain env cid w = (None, w \<lparr> selected_chains := selected_chains w @ [cid] \<rparr>)"
      using switchChain_world [of env cid w] by (cases "switchChain env cid w") simp
    with False t acc cid
    have "useSwapCallback env p w =
            executeSwap env p t (w \<lparr> selected_chains := selected_chains w @ [cid] \<rparr>)"
      by (simp add: useSwapCallback_def Let_def)
    with t show ?thesis by fastforce
  qed
qed

text \<open>
  C3. The callback validates its inputs before it delegates: on the inputs of
  \<open>inputs_rejected\<close> it throws and invokes no strategy callback; on every other input
  it invokes the selected strategy callback.
\<close>

theorem useSwapCallback_validation:
  "(inputs_rejected env p \<longrightarrow>
      (\<exists>e. fst (useSwapCallback env p w) = Inl e)
      \<and> invoked (snd (useSwapCallback env p w)) = invoked w)
   \<and> (\<not> inputs_rejected env p \<longrightarrow>
      invoked (snd (useSwapCallback env p w)) = invoked w @ [swapCallback env p])"
proof (cases "inputs_rejected env p")
  case True
  from useSwapCallback_rejected [OF True, of w] True show ?thesis by auto
next
  case False
  from useSwapCallback_accepted [OF False, of w] False show ?thesis
    by (auto simp: executeSwap_invoked)
qed

theorem useSwapCallback_validation_witness:
  "invoked (snd (useSwapCallback example_surroundings (example_params (Some example_classic_trade))
                   example_world))
     = [swapCallback example_surroundings (example_params (Some example_classic_trade))]
   \<and> fst (useSwapCallback example_surroundings (example_params None) example_world)
     = Inl MissingTrade
   \<and> invoked (snd (useSwapCallback example_surroundings (example_params None) example_world)) = []"
proof -
  have ok: "\<not> inputs_rejected example_surroundings (example_params (Some example_classic_trade))"
    by (simp add: inputs_rejected_def example_surroundings_def example_params_def)
  have bad: "inputs_rejected example_surroundings (example_params None)"
    by (simp add: inputs_rejected_def example_params_def)
  have thrown: "fst (useSwapCallback example_surroundings (example_params None) example_world)
                  = Inl MissingTrade"
    by (simp add: useSwapCallback_def example_params_def)
  from useSwapCallback_validation
         [of example_surroundings "example_params (Some example_classic_trade)" example_world]
       useSwapCallback_validation [of example_surroundings "example_params None" example_world]
       ok bad thrown
  show ?thesis
    by (simp add: example_world_def)
qed

text \<open>
  C4. The callback selects between two strategies by the variant of the trade and
  delegates to the one selected. The selected callback is the UniswapX one if and only
  if the trade is a UniswapX trade, and the universal-router one otherwise. The callback
  invokes no strategy callback on rejected inputs, and on every other input exactly the
  one selected, built by its hook from the arguments of the source. What the strategy
  throws the callback throws, and a result the callback returns is the result of the
  strategy.
\<close>

theorem useSwapCallback_strategy:
  "((case swapCallback env p of
       uniswapXSwapCallback _ \<Rightarrow> True
     | universalRouterSwapCallback _ \<Rightarrow> False) \<longleftrightarrow> guard (isUniswapXTrade env) (trade p))
   \<and> invoked (snd (useSwapCallback env p w)) =
       invoked w @
         (if inputs_rejected env p then []
          else [if guard (isUniswapXTrade env) (trade p)
                then uniswapXSwapCallback (uniswapXSwapArgs env p)
                else universalRouterSwapCallback (universalRouterSwapArgs env p)])
   \<and> (\<not> inputs_rejected env p \<and> guard (isUniswapXTrade env) (trade p) \<longrightarrow>
        (\<forall>e. useUniswapXSwapCallback env (uniswapXSwapArgs env p) = Inl e \<longrightarrow>
              fst (useSwapCallback env p w) = Inl e)
        \<and> (\<forall>result. fst (useSwapCallback env p w) = Inr result \<longrightarrow>
              useUniswapXSwapCallback env (uniswapXSwapArgs env p) = Inr result))
   \<and> (\<not> inputs_rejected env p \<and> \<not> guard (isUniswapXTrade env) (trade p) \<longrightarrow>
        (\<forall>e. useUniversalRouterSwapCallback env (universalRouterSwapArgs env p) = Inl e \<longrightarrow>
              fst (useSwapCallback env p w) = Inl e)
        \<and> (\<forall>result. fst (useSwapCallback env p w) = Inr result \<longrightarrow>
              useUniversalRouterSwapCallback env (universalRouterSwapArgs env p) = Inr result))"
proof (cases "inputs_rejected env p")
  case True
  from useSwapCallback_rejected [OF True, of w] True show ?thesis
    by (auto simp: swapCallback_def)
next
  case False
  from useSwapCallback_accepted [OF False, of w] obtain t w1 where
    run: "useSwapCallback env p w = executeSwap env p t w1" and same: "invoked w1 = invoked w"
    by blast
  have log: "invoked (snd (useSwapCallback env p w)) = invoked w @ [swapCallback env p]"
    using run same by (simp add: executeSwap_invoked)
  have "executeSwap env p t w1 = (fst (useSwapCallback env p w), snd (useSwapCallback env p w))"
    using run by simp
  from executeSwap_outcome [OF this]
  have out: "\<forall>e. await_callback env (swapCallback env p) = Inl e \<longrightarrow>
                fst (useSwapCallback env p w) = Inl e"
    "\<forall>result. fst (useSwapCallback env p w) = Inr result \<longrightarrow>
                await_callback env (swapCallback env p) = Inr result"
    by blast+
  show ?thesis
  proof (cases "guard (isUniswapXTrade env) (trade p)")
    case True
    with False log out show ?thesis
      by (simp add: swapCallback_def await_callback_def)
  next
    case no: False
    with False log out show ?thesis
      by (simp add: swapCallback_def await_callback_def)
  qed
qed

theorem useSwapCallback_strategy_witness:
  "invoked (snd (useSwapCallback example_surroundings
                   (example_params (Some example_uniswapx_trade)) example_world))
     = [uniswapXSwapCallback
          \<lparr> uniswapx_trade = Some example_uniswapx_trade,
            uniswapx_allowedSlippage = (1, 200),
            uniswapx_fiatValues = \<lparr> amountIn = Some 3000, amountOut = Some 2995, feeUsd = None \<rparr> \<rparr>]
   \<and> invoked (snd (useSwapCallback example_surroundings
                   (example_params (Some example_classic_trade)) example_world))
     = [universalRouterSwapCallback
          \<lparr> router_trade = Some example_classic_trade,
            router_fiatValues = \<lparr> amountIn = Some 3000, amountOut = Some 2995, feeUsd = None \<rparr>,
            options = \<lparr> slippageTolerance = (1, 200), permit = None,
                        feeField = Some (feeOptions (1, 400) ''0xfee'') \<rparr> \<rparr>]
   \<and> invoked (snd (useSwapCallback example_surroundings (example_params None) example_world))
     = []"
proof -
  have ok_ux: "\<not> inputs_rejected example_surroundings (example_params (Some example_uniswapx_trade))"
    by (simp add: inputs_rejected_def example_surroundings_def example_params_def)
  have ok_cl: "\<not> inputs_rejected example_surroundings (example_params (Some example_classic_trade))"
    by (simp add: inputs_rejected_def example_surroundings_def example_params_def)
  have bad: "inputs_rejected example_surroundings (example_params None)"
    by (simp add: inputs_rejected_def example_params_def)
  have ux: "guard (isUniswapXTrade example_surroundings)
              (trade (example_params (Some example_uniswapx_trade)))"
    by (simp add: guard_def example_surroundings_def example_params_def example_uniswapx_trade_def)
  have cl: "\<not> guard (isUniswapXTrade example_surroundings)
              (trade (example_params (Some example_classic_trade)))"
    by (simp add: guard_def example_surroundings_def example_params_def example_classic_trade_def)
  have a1: "uniswapXSwapArgs example_surroundings (example_params (Some example_uniswapx_trade))
        = \<lparr> uniswapx_trade = Some example_uniswapx_trade,
           uniswapx_allowedSlippage = (1, 200),
           uniswapx_fiatValues = \<lparr> amountIn = Some 3000, amountOut = Some 2995, feeUsd = None \<rparr> \<rparr>"
    using ux by (simp add: uniswapXSwapArgs_def) (simp add: example_params_def)
  have a2: "universalRouterSwapArgs example_surroundings (example_params (Some example_classic_trade))
        = \<lparr> router_trade = Some example_classic_trade,
           router_fiatValues = \<lparr> amountIn = Some 3000, amountOut = Some 2995, feeUsd = None \<rparr>,
           options = \<lparr> slippageTolerance = (1, 200), permit = None,
                       feeField = Some (feeOptions (1, 400) ''0xfee'') \<rparr> \<rparr>"
    by (simp add: universalRouterSwapArgs_def getUniversalRouterFeeFields_def guard_def
        example_surroundings_def example_params_def example_classic_trade_def)
  from useSwapCallback_strategy
         [of example_surroundings "example_params (Some example_uniswapx_trade)" example_world]
       useSwapCallback_strategy
         [of example_surroundings "example_params (Some example_classic_trade)" example_world]
       useSwapCallback_strategy [of example_surroundings "example_params None" example_world]
       ok_ux ok_cl bad ux cl a1 a2
  show ?thesis
    by (simp add: example_world_def)
qed

text \<open>
  C5 (as amended). On inputs that pass the validation, when the selected strategy
  returns a result: for the fill types \<open>UniswapX\<close> and \<open>UniswapXv2\<close> the callback
  returns this result, gives \<open>addOrder\<close> one order, whose offerer is the address of the
  account and whose order hash, expiry and encoded order are those of the result, and
  gives \<open>addTransaction\<close> nothing; for every other fill type, provided the deadline of
  the result is undefined or of magnitude below \<open>2 ^ 53\<close>, the callback returns this
  result, gives \<open>addTransaction\<close> the response, the swap info and the deadline, and
  gives \<open>addOrder\<close> nothing.
\<close>

theorem useSwapCallback_records:
  assumes "\<not> inputs_rejected env p"
    and "await_callback env (swapCallback env p) = Inr result"
    and "useSwapCallback env p w = (outcome, w')"
  shows "(result_type result = UniswapX \<or> result_type result = UniswapXv2 \<longrightarrow>
          outcome = Inr result
          \<and> (\<exists>order response t.
                (result = UniswapXSwapResult response \<or> result = UniswapXv2SwapResult response)
                \<and> orders w' = orders w @ [order]
                \<and> offerer order = address (useAccount env)
                \<and> order_orderHash order = orderHash response
                \<and> expiry order = deadline response
                \<and> order_encodedOrder order = encodedOrder response
                \<and> trade p = Some t
                \<and> swapInfo order = swapInfo_of env p t result
                \<and> isUniswapXOrder (swapInfo order))
          \<and> transactions w' = transactions w)
     \<and> (result_type result \<noteq> UniswapX \<and> result_type result \<noteq> UniswapXv2 \<longrightarrow>
          (\<exists>response dl t.
              result = ClassicSwapResult response dl
              \<and> trade p = Some t
              \<and> ((case dl of None \<Rightarrow> True | Some n \<Rightarrow> \<bar>n\<bar> < 2 ^ 53) \<longrightarrow>
                   outcome = Inr result
                   \<and> transactions w' =
                       transactions w @ [(response, swapInfo_of env p t result, dl)]
                   \<and> \<not> isUniswapXOrder (swapInfo_of env p t result)
                   \<and> orders w' = orders w)))"
proof -
  from useSwapCallback_accepted [OF assms(1), of w] obtain t w1 where
    t: "trade p = Some t" and run: "useSwapCallback env p w = executeSwap env p t w1" and
    same: "orders w1 = orders w" "transactions w1 = transactions w"
    by blast
  from run assms(3) have "executeSwap env p t w1 = (outcome, w')" by simp
  note rec = executeSwap_records [OF assms(2) this]
  show ?thesis
  proof (cases result)
    case (ClassicSwapResult response dl)
    show ?thesis
    proof (cases "case dl of None \<Rightarrow> True | Some n \<Rightarrow> \<bar>n\<bar> < 2 ^ 53")
      case True
      then have "optional_toNumber dl = Inr dl" by (rule optional_toNumber_safe)
      with rec ClassicSwapResult same t True show ?thesis
        by (simp add: swapInfo_of_def)
    next
      case False
      with ClassicSwapResult t show ?thesis by simp
    qed
  next
    case (UniswapXSwapResult response)
    with rec same t show ?thesis
      by (simp add: order_of_def swapInfo_of_def)
  next
    case (UniswapXv2SwapResult response)
    with rec same t show ?thesis
      by (simp add: order_of_def swapInfo_of_def)
  qed
qed

theorem useSwapCallback_records_witness:
  "fst (useSwapCallback example_surroundings (example_params (Some example_classic_trade))
          example_world)
     = Inr (ClassicSwapResult \<lparr> hash = ''0xtx'' \<rparr> (Some 1700000000))
   \<and> transactions (snd (useSwapCallback example_surroundings
                          (example_params (Some example_classic_trade)) example_world))
     = [(\<lparr> hash = ''0xtx'' \<rparr>,
         \<lparr> info_type = Swap, inputCurrencyId = ''ETH'', outputCurrencyId = ''USDC'',
           isUniswapXOrder = False, amounts = ExactInputAmounts 1000 3000 2990 \<rparr>,
         Some 1700000000)]
   \<and> orders (snd (useSwapCallback example_surroundings
                    (example_params (Some example_classic_trade)) example_world)) = []
   \<and> fst (useSwapCallback example_v2_surroundings (example_params (Some example_uniswapx_trade))
          example_world)
     = Inr (UniswapXv2SwapResult
              \<lparr> orderHash = ''0xhash2'', deadline = 1700000001, encodedOrder = ''0xorder2'' \<rparr>)
   \<and> map (\<lambda>order. (offerer order, order_orderHash order, expiry order, order_encodedOrder order))
       (orders (snd (useSwapCallback example_v2_surroundings
                       (example_params (Some example_uniswapx_trade)) example_world)))
     = [(Some ''0xabc'', ''0xhash2'', 1700000001, ''0xorder2'')]
   \<and> transactions (snd (useSwapCallback example_v2_surroundings
                          (example_params (Some example_uniswapx_trade)) example_world)) = []"
proof -
  let ?pc = "example_params (Some example_classic_trade)"
  let ?px = "example_params (Some example_uniswapx_trade)"
  let ?runc = "useSwapCallback example_surroundings ?pc example_world"
  let ?runx = "useSwapCallback example_v2_surroundings ?px example_world"
  have okc: "\<not> inputs_rejected example_surroundings ?pc"
    by (simp add: inputs_rejected_def example_surroundings_def example_params_def)
  have okx: "\<not> inputs_rejected example_v2_surroundings ?px"
    by (simp add: inputs_rejected_def example_v2_surroundings_def example_surroundings_def
        example_params_def)
  have resc: "await_callback example_surroundings (swapCallback example_surroundings ?pc)
        = Inr (ClassicSwapResult \<lparr> hash = ''0xtx'' \<rparr> (Some 1700000000))"
    by (simp add: swapCallback_def await_callback_def guard_def example_surroundings_def
        example_params_def example_classic_trade_def)
  have resx: "await_callback example_v2_surroundings (swapCallback example_v2_surroundings ?px)
        = Inr (UniswapXv2SwapResult
              \<lparr> orderHash = ''0xhash2'', deadline = 1700000001, encodedOrder = ''0xorder2'' \<rparr>)"
    by (simp add: swapCallback_def await_callback_def guard_def example_v2_surroundings_def
        example_surroundings_def example_params_def example_uniswapx_trade_def)
  have runc: "?runc = (fst ?runc, snd ?runc)" and runx: "?runx = (fst ?runx, snd ?runx)"
    by simp_all
  have info: "swapInfo_of example_surroundings ?pc example_classic_trade
                (ClassicSwapResult \<lparr> hash = ''0xtx'' \<rparr> (Some 1700000000))
        = \<lparr> info_type = Swap, inputCurrencyId = ''ETH'', outputCurrencyId = ''USDC'',
           isUniswapXOrder = False, amounts = ExactInputAmounts 1000 3000 2990 \<rparr>"
    by (simp add: swapInfo_of_def example_surroundings_def example_params_def
        example_classic_trade_def)
  have tc: "trade ?pc = Some example_classic_trade"
    by (simp add: example_params_def)
  have acc: "address (useAccount example_v2_surroundings) = Some ''0xabc''"
    by (simp add: example_v2_surroundings_def example_surroundings_def)
  from useSwapCallback_records [OF okc resc runc] tc info
  have classic: "fst ?runc = Inr (ClassicSwapResult \<lparr> hash = ''0xtx'' \<rparr> (Some 1700000000))
      \<and> transactions (snd ?runc)
          = [(\<lparr> hash = ''0xtx'' \<rparr>,
              \<lparr> info_type = Swap, inputCurrencyId = ''ETH'', outputCurrencyId = ''USDC'',
                isUniswapXOrder = False, amounts = ExactInputAmounts 1000 3000 2990 \<rparr>,
              Some 1700000000)]
      \<and> orders (snd ?runc) = []"
    by (simp add: example_world_def)
  from useSwapCallback_records [OF okx resx runx] acc
  have v2: "fst ?runx = Inr (UniswapXv2SwapResult
              \<lparr> orderHash = ''0xhash2'', deadline = 1700000001, encodedOrder = ''0xorder2'' \<rparr>)
      \<and> map (\<lambda>order. (offerer order, order_orderHash order, expiry order, order_encodedOrder order))
          (orders (snd ?runx)) = [(Some ''0xabc'', ''0xhash2'', 1700000001, ''0xorder2'')]
      \<and> transactions (snd ?runx) = []"
    by (auto simp: example_world_def)
  from classic v2 show ?thesis
    by simp
qed

text \<open>
  The claim C5 as stated fails: the inputs pass the validation and the universal-router
  strategy returns a \<open>Classic\<close> result whose deadline is \<open>2 ^ 53\<close>; \<^verbatim>\<open>toNumber()\<close>
  throws, so the callback throws instead of returning the result, and no transaction is
  recorded.
\<close>

theorem useSwapCallback_records_counterexample:
  "\<not> inputs_rejected example_overflow_surroundings (example_params (Some example_classic_trade))
   \<and> await_callback example_overflow_surroundings
       (swapCallback example_overflow_surroundings (example_params (Some example_classic_trade)))
     = Inr (ClassicSwapResult \<lparr> hash = ''0xtx'' \<rparr> (Some 9007199254740992))
   \<and> fst (useSwapCallback example_overflow_surroundings
            (example_params (Some example_classic_trade)) example_world)
     = Inl NumericFault
   \<and> transactions (snd (useSwapCallback example_overflow_surroundings
                          (example_params (Some example_classic_trade)) example_world)) = []
   \<and> orders (snd (useSwapCallback example_overflow_surroundings
                    (example_params (Some example_classic_trade)) example_world)) = []"
proof -
  let ?env = example_overflow_surroundings
  let ?p = "example_params (Some example_classic_trade)"
  let ?run = "useSwapCallback ?env ?p example_world"
  have ok: "\<not> inputs_rejected ?env ?p"
    by (simp add: inputs_rejected_def example_overflow_surroundings_def example_surroundings_def
        example_params_def)
  have res: "await_callback ?env (swapCallback ?env ?p)
        = Inr (ClassicSwapResult \<lparr> hash = ''0xtx'' \<rparr> (Some 9007199254740992))"
    by (simp add: swapCallback_def await_callback_def guard_def example_overflow_surroundings_def
        example_surroundings_def example_params_def example_classic_trade_def)
  have overflow: "optional_toNumber (Some 9007199254740992) = Inl NumericFault"
    by (simp add: optional_toNumber_def toNumber_def)
  from useSwapCallback_accepted [OF ok, of example_world] obtain t w1 where
    run: "?run = executeSwap ?env ?p t w1" and
    same: "orders w1 = orders example_world" "transactions w1 = transactions example_world"
    by blast
  then have "executeSwap ?env ?p t w1 = (fst ?run, snd ?run)" by simp
  from executeSwap_records [OF res this] overflow same
  have "fst ?run = Inl NumericFault \<and> transactions (snd ?run) = [] \<and> orders (snd ?run) = []"
    by (simp add: example_world_def)
  with ok res show ?thesis
    by simp
qed

text \<open>
  C6. When the callback throws, and so when it throws during input validation, neither
  \<open>addOrder\<close> nor \<open>addTransaction\<close> has been called; an order or a transaction is
  recorded only after the selected strategy was invoked and returned a result, which the
  callback returns.
\<close>

theorem useSwapCallback_throw_records_nothing:
  assumes "useSwapCallback env p w = (outcome, w')"
  shows "((\<exists>e. outcome = Inl e) \<longrightarrow> orders w' = orders w \<and> transactions w' = transactions w)
     \<and> (orders w' \<noteq> orders w \<or> transactions w' \<noteq> transactions w \<longrightarrow>
          invoked w' = invoked w @ [swapCallback env p]
          \<and> (\<exists>result. outcome = Inr result
                \<and> await_callback env (swapCallback env p) = Inr result))"
proof (cases "inputs_rejected env p")
  case True
  from useSwapCallback_rejected [OF True, of w] assms show ?thesis by auto
next
  case False
  from useSwapCallback_accepted [OF False, of w] obtain t w1 where
    "trade p = Some t" and run: "useSwapCallback env p w = executeSwap env p t w1" and
    same: "invoked w1 = invoked w" "orders w1 = orders w" "transactions w1 = transactions w"
    by blast
  from run assms have ex: "executeSwap env p t w1 = (outcome, w')" by simp
  then have inv: "invoked w' = invoked w @ [swapCallback env p]"
    using executeSwap_invoked [of env p t w1] same by simp
  from executeSwap_outcome [OF ex] same
  have quiet: "(\<exists>e. outcome = Inl e) \<longrightarrow> orders w' = orders w \<and> transactions w' = transactions w"
    and from_strategy: "\<forall>result. outcome = Inr result \<longrightarrow>
                          await_callback env (swapCallback env p) = Inr result"
    by simp_all
  show ?thesis
  proof (cases outcome)
    case (Inl e)
    with quiet show ?thesis by simp
  next
    case (Inr result)
    with from_strategy inv show ?thesis by simp
  qed
qed

theorem useSwapCallback_throw_records_nothing_witness:
  "fst (useSwapCallback example_surroundings (example_params None) example_world) = Inl MissingTrade
   \<and> orders (snd (useSwapCallback example_surroundings (example_params None) example_world)) = []
   \<and> transactions (snd (useSwapCallback example_surroundings (example_params None) example_world))
       = []"
proof -
  let ?run = "useSwapCallback example_surroundings (example_params None) example_world"
  have thrown: "fst ?run = Inl MissingTrade"
    by (simp add: useSwapCallback_def example_params_def)
  have run: "?run = (fst ?run, snd ?run)"
    by simp
  from useSwapCallback_throw_records_nothing [OF run] thrown show ?thesis
    by (simp add: example_world_def)
qed

section \<open>Properties of \<^verbatim>\<open>useSwapTransactionStatus\<close>\<close>

text \<open>
  C10. \<open>useSwapTransactionStatus\<close> returns undefined for every swap result whose fill
  type is not \<open>Classic\<close> and for every \<open>Classic\<close> result whose transaction hash is not
  in the transaction store; otherwise it returns the status of the stored transaction.
\<close>

theorem useSwapTransactionStatus_cases:
  "(result_type r \<noteq> Classic \<longrightarrow> useSwapTransactionStatus store (Some r) = None)
   \<and> (r = ClassicSwapResult response dl \<and> store (hash response) = None \<longrightarrow>
        useSwapTransactionStatus store (Some r) = None)
   \<and> (r = ClassicSwapResult response dl \<and> store (hash response) = Some tx \<longrightarrow>
        useSwapTransactionStatus store (Some r) = Some (status tx))
   \<and> useSwapTransactionStatus store None = None"
  by (cases r) (simp_all add: useSwapTransactionStatus_def useTransaction_def)

theorem useSwapTransactionStatus_cases_witness:
  "useSwapTransactionStatus [''0xtx'' \<mapsto> \<lparr> status = ''pending'' \<rparr>]
     (Some (ClassicSwapResult \<lparr> hash = ''0xtx'' \<rparr> None)) = Some ''pending''
   \<and> useSwapTransactionStatus [''0xtx'' \<mapsto> \<lparr> status = ''pending'' \<rparr>]
     (Some (ClassicSwapResult \<lparr> hash = ''0xother'' \<rparr> None)) = None
   \<and> useSwapTransactionStatus [''0xtx'' \<mapsto> \<lparr> status = ''pending'' \<rparr>]
     (Some (UniswapXSwapResult \<lparr> orderHash = ''0xtx'', deadline = 5, encodedOrder = ''0x'' \<rparr>)) = None"
  using useSwapTransactionStatus_cases
      [where r = "ClassicSwapResult \<lparr> hash = ''0xtx'' \<rparr> None"
         and store = "[''0xtx'' \<mapsto> \<lparr> status = ''pending'' \<rparr>]"
         and response = "\<lparr> hash = ''0xtx'' \<rparr>" and dl = None
         and tx = "\<lparr> status = ''pending'' \<rparr>"]
    useSwapTransactionStatus_cases
      [where r = "ClassicSwapResult \<lparr> hash = ''0xother'' \<rparr> None"
         and store = "[''0xtx'' \<mapsto> \<lparr> status = ''pending'' \<rparr>]"
         and response = "\<lparr> hash = ''0xother'' \<rparr>" and dl = None]
    useSwapTransactionStatus_cases
      [where r = "UniswapXSwapResult \<lparr> orderHash = ''0xtx'', deadline = 5, encodedOrder = ''0x'' \<rparr>"
         and store = "[''0xtx'' \<mapsto> \<lparr> status = ''pending'' \<rparr>]"]
  by simp

end
